theory Spec2Isabelle
  imports Main "HOL-Library.Sublist" "HOL-Library.Word"
begin

section \<open>JavaScript values\<close>

text \<open>
  The request-body encoder of \<^verbatim>\<open>src/core/network/client.ts\<close> probes the shape of
  untyped parameter values at run time, so the model starts with the values themselves.
  A stream is a host object. One handed in by the caller comes with the two texts
  \<^verbatim>\<open>JSON.stringify\<close> writes for its enumerable properties, without and with the replacer
  of the source. The reader that \<^verbatim>\<open>fs.createReadStream\<close> opens on a path and the body of a
  \<^verbatim>\<open>fetch\<close> response are opened by the encoder and handed to the form.
  An object is the list of its own entries in \<^verbatim>\<open>Object.entries\<close> order. A number is an
  integer from \<^verbatim>\<open>-2^53\<close> up to, and without, \<^verbatim>\<open>2^53\<close>: each is a number of the language
  and is printed digit by digit. Prototypes, functions, symbols, numbers with a fraction
  or beyond that range, \<^verbatim>\<open>NaN\<close> and the infinities are outside the model.
\<close>

datatype stream = UserStream nat string string | ReadStream string | ResponseBody nat

datatype jsval =
    JUndefined
  | JNull
  | JBool bool
  | JNum "54 word"
  | JStr string
  | JArr "jsval list"
  | JObj "(string \<times> jsval) list"
  | JBuffer "nat list"
  | JStream stream

datatype jstype = TUndefined | TObject | TBoolean | TNumber | TString

text \<open>The \<^verbatim>\<open>typeof\<close> operator; \<^verbatim>\<open>typeof null\<close> is \<^verbatim>\<open>'object'\<close>.\<close>

fun typeof :: "jsval \<Rightarrow> jstype" where
  "typeof JUndefined = TUndefined"
| "typeof JNull = TObject"
| "typeof (JBool b) = TBoolean"
| "typeof (JNum n) = TNumber"
| "typeof (JStr s) = TString"
| "typeof (JArr xs) = TObject"
| "typeof (JObj kvs) = TObject"
| "typeof (JBuffer bs) = TObject"
| "typeof (JStream s) = TObject"

text \<open>Truthiness (\<^verbatim>\<open>ToBoolean\<close>).\<close>

fun truthy :: "jsval \<Rightarrow> bool" where
  "truthy JUndefined = False"
| "truthy JNull = False"
| "truthy (JBool b) = b"
| "truthy (JNum n) = (n \<noteq> 0)"
| "truthy (JStr s) = (s \<noteq> [])"
| "truthy (JArr xs) = True"
| "truthy (JObj kvs) = True"
| "truthy (JBuffer bs) = True"
| "truthy (JStream s) = True"

text \<open>\<^verbatim>\<open>value == null\<close>: true of \<^verbatim>\<open>null\<close> and \<^verbatim>\<open>undefined\<close> only.\<close>

fun nullish :: "jsval \<Rightarrow> bool" where
  "nullish JUndefined = True"
| "nullish JNull = True"
| "nullish _ = False"

fun isArray :: "jsval \<Rightarrow> bool" where
  "isArray (JArr xs) = True"
| "isArray _ = False"

text \<open>
  Errors are values. \<open>TypeError msg\<close> is a \<^verbatim>\<open>TypeError\<close> the source constructs itself,
  \<open>JsTypeError\<close> one raised by the language (reading a property of \<^verbatim>\<open>null\<close>, the
  \<^verbatim>\<open>in\<close> operator on a primitive; its message is not modelled), \<open>FsError code\<close> a
  rejection of the file system with its error code, and \<open>FetchError msg\<close> a rejection of
  \<^verbatim>\<open>fetch\<close>.
\<close>

datatype error = TypeError string | JsTypeError | FsError string | FetchError string

text \<open>
  A property read \<^verbatim>\<open>v.k\<close>. It raises on \<^verbatim>\<open>null\<close> and \<^verbatim>\<open>undefined\<close>; the property names
  the encoder reads (\<^verbatim>\<open>media\<close>, \<^verbatim>\<open>source\<close>, \<^verbatim>\<open>url\<close>, \<^verbatim>\<open>filename\<close>, \<^verbatim>\<open>thumb\<close>,
  \<^verbatim>\<open>thumbnail\<close>, \<^verbatim>\<open>type\<close>) exist on no primitive, array, buffer or stream of the model.
\<close>

fun get_prop :: "jsval \<Rightarrow> string \<Rightarrow> error + jsval" where
  "get_prop JUndefined k = Inl JsTypeError"
| "get_prop JNull k = Inl JsTypeError"
| "get_prop (JObj kvs) k = Inr (case map_of kvs k of None \<Rightarrow> JUndefined | Some v \<Rightarrow> v)"
| "get_prop v k = Inr JUndefined"

text \<open>The same read where the source has already established that the base is not nullish.\<close>

fun prop_of :: "jsval \<Rightarrow> string \<Rightarrow> jsval" where
  "prop_of (JObj kvs) k = (case map_of kvs k of None \<Rightarrow> JUndefined | Some v \<Rightarrow> v)"
| "prop_of v k = JUndefined"

text \<open>The operator \<^verbatim>\<open>k in v\<close>, which raises when \<open>v\<close> is not an object.\<close>

fun has_in :: "string \<Rightarrow> jsval \<Rightarrow> error + bool" where
  "has_in k (JObj kvs) = Inr (map_of kvs k \<noteq> None)"
| "has_in k (JArr xs) = Inr False"
| "has_in k (JBuffer bs) = Inr False"
| "has_in k (JStream s) = Inr False"
| "has_in k v = Inl JsTypeError"

text \<open>
  Modelled from the spec: \<^verbatim>\<open>hasProp\<close> and \<^verbatim>\<open>hasPropType\<close> of \<^verbatim>\<open>../helpers/check\<close> are
  imported by the source and not part of it. The spec speaks of a value ``carrying a
  key'', so \<open>hasProp obj k\<close> holds when \<open>obj\<close> is an object with an own entry \<open>k\<close>, and
  \<open>hasPropType obj k t\<close> when moreover \<^verbatim>\<open>typeof obj[k]\<close> is \<open>t\<close>.
\<close>

fun hasProp :: "jsval \<Rightarrow> string \<Rightarrow> bool" where
  "hasProp (JObj kvs) k = (map_of kvs k \<noteq> None)"
| "hasProp v k = False"

definition hasPropType :: "jsval \<Rightarrow> string \<Rightarrow> jstype \<Rightarrow> bool" where
  "hasPropType obj k t = (hasProp obj k \<and> typeof (prop_of obj k) = t)"

section \<open>The structural scan\<close>

text \<open>
  \<^verbatim>\<open>Array.prototype.some\<close> with a callback that may raise: the elements are visited in
  order, the first truthy answer ends the scan, and an exception ends it as well.
\<close>

fun some_err :: "('a \<Rightarrow> error + bool) \<Rightarrow> 'a list \<Rightarrow> error + bool" where
  "some_err f [] = Inr False"
| "some_err f (x # xs) =
     (case f x of
        Inl e \<Rightarrow> Inl e
      | Inr b \<Rightarrow> if b then Inr True else some_err f xs)"

text \<open>
  The callback of the array branch, \<^verbatim>\<open>({ media }) => media && typeof media === 'object' &&
  (media.source || media.url)\<close>. Destructuring a \<^verbatim>\<open>null\<close> or \<^verbatim>\<open>undefined\<close> element raises.
\<close>

definition includesMedia_item :: "jsval \<Rightarrow> error + bool" where
  "includesMedia_item item =
     (case get_prop item ''media'' of
        Inl e \<Rightarrow> Inl e
      | Inr media \<Rightarrow>
          Inr (truthy media \<and> typeof media = TObject \<and>
               (truthy (prop_of media ''source'') \<or> truthy (prop_of media ''url''))))"

definition includesMedia_entry :: "string \<times> jsval \<Rightarrow> error + bool" where
  "includesMedia_entry kv =
     (case kv of (key, v) \<Rightarrow>
        if key = ''link_preview_options'' then Inr False
        else if isArray v then
          (case v of JArr items \<Rightarrow> some_err includesMedia_item items | _ \<Rightarrow> Inr False)
        else
          Inr (truthy v \<and> typeof v = TObject \<and>
               ((hasProp v ''source'' \<and> truthy (prop_of v ''source'')) \<or>
                (hasProp v ''url'' \<and> truthy (prop_of v ''url'')) \<or>
                (hasPropType v ''media'' TObject \<and>
                 ((hasProp (prop_of v ''media'') ''source'' \<and>
                   truthy (prop_of (prop_of v ''media'') ''source'')) \<or>
                  (hasProp (prop_of v ''media'') ''url'' \<and>
                   truthy (prop_of (prop_of v ''media'') ''url'')))))))"

definition includesMedia :: "(string \<times> jsval) list \<Rightarrow> error + bool" where
  "includesMedia payload = some_err includesMedia_entry payload"

section \<open>String conversion and JSON text\<close>

text \<open>\<^verbatim>\<open>Number.prototype.toString\<close> on the numbers of the model.\<close>

function string_of_nat :: "nat \<Rightarrow> string" where
  "string_of_nat n =
     (if n < 10 then [''0123456789'' ! n]
      else string_of_nat (n div 10) @ [''0123456789'' ! (n mod 10)])"
  by pat_completeness auto
termination
  by (relation "measure id") auto

declare string_of_nat.simps [simp del]

definition number_toString :: "54 word \<Rightarrow> string" where
  "number_toString n =
     (if sint n < 0 then CHR ''-'' # string_of_nat (nat (- sint n)) else string_of_nat (nat (sint n)))"

text \<open>\<^verbatim>\<open>Array.prototype.join\<close> on strings.\<close>

fun join :: "string \<Rightarrow> string list \<Rightarrow> string" where
  "join sep [] = []"
| "join sep [x] = x"
| "join sep (x # y # ys) = x @ sep @ join sep (y # ys)"

text \<open>
  The conversion a template literal applies, \<^verbatim>\<open>`${v}`\<close>. An array joins its elements
  with commas, a nullish element giving the empty string; a buffer decodes its bytes,
  which the model reads as the characters of well-formed text.
\<close>

fun toString :: "jsval \<Rightarrow> string" where
  "toString JUndefined = ''undefined''"
| "toString JNull = ''null''"
| "toString (JBool b) = (if b then ''true'' else ''false'')"
| "toString (JNum n) = number_toString n"
| "toString (JStr s) = s"
| "toString (JArr xs) = join '','' (map (\<lambda>x. if nullish x then [] else toString x) xs)"
| "toString (JObj kvs) = ''[object Object]''"
| "toString (JBuffer bs) = map char_of bs"
| "toString (JStream s) = ''[object Object]''"

text \<open>
  \<^verbatim>\<open>QuoteJSONString\<close>: the double quote (code 0x22) and the backslash (code 0x5C) are
  escaped, control characters take their short escape or \<^verbatim>\<open>\u00XX\<close>.
\<close>

definition quote_char :: "char \<Rightarrow> string" where
  "quote_char c =
     (if c = CHR 0x22 then [CHR 0x5C, CHR 0x22]
      else if c = CHR 0x5C then [CHR 0x5C, CHR 0x5C]
      else if c = CHR 0x08 then [CHR 0x5C, CHR ''b'']
      else if c = CHR 0x09 then [CHR 0x5C, CHR ''t'']
      else if c = CHR 0x0A then [CHR 0x5C, CHR ''n'']
      else if c = CHR 0x0C then [CHR 0x5C, CHR ''f'']
      else if c = CHR 0x0D then [CHR 0x5C, CHR ''r'']
      else if (of_char c :: nat) < 32 then
        [CHR 0x5C, CHR ''u'', CHR ''0'', CHR ''0'',
         ''0123456789abcdef'' ! (of_char c div 16), ''0123456789abcdef'' ! (of_char c mod 16)]
      else [c])"

definition quoteJSONString :: "string \<Rightarrow> string" where
  "quoteJSONString s = CHR 0x22 # concat (map quote_char s) @ [CHR 0x22]"

text \<open>
  The replacer of the source, \<^verbatim>\<open>function replacer(_, value)\<close>: a nullish value becomes
  \<^verbatim>\<open>undefined\<close>. Its first argument, the key, is unused and left out.
\<close>

definition replacer :: "jsval \<Rightarrow> jsval" where
  "replacer v = (if nullish v then JUndefined else v)"

fun apply_replacer :: "bool \<Rightarrow> jsval \<Rightarrow> jsval" where
  "apply_replacer True v = replacer v"
| "apply_replacer False v = v"

text \<open>
  \<^verbatim>\<open>SerializeJSONProperty\<close> of \<^verbatim>\<open>JSON.stringify\<close>, with the replacer of the source when the
  flag is set. The replacer is called on every property value and array element before
  the value is serialised. \<open>None\<close> is \<^verbatim>\<open>undefined\<close>: such a property is left out of its
  object, and such an element is written \<^verbatim>\<open>null\<close> in its array. A buffer serialises as
  its \<^verbatim>\<open>toJSON\<close> object. A stream of the caller is written as the text of its enumerable
  properties, which the replacer has gone through when it is set; a stream the encoder
  has opened itself never reaches \<^verbatim>\<open>JSON.stringify\<close>, and is written here without
  properties.
\<close>

fun stream_json :: "bool \<Rightarrow> stream \<Rightarrow> string" where
  "stream_json r (UserStream n plain replaced) = (if r then replaced else plain)"
| "stream_json r (ReadStream p) = ''{}''"
| "stream_json r (ResponseBody n) = ''{}''"

function serializeJSONProperty :: "bool \<Rightarrow> jsval \<Rightarrow> string option" where
  "serializeJSONProperty r v =
     (case apply_replacer r v of
        JUndefined \<Rightarrow> None
      | JNull \<Rightarrow> Some ''null''
      | JBool b \<Rightarrow> Some (if b then ''true'' else ''false'')
      | JNum n \<Rightarrow> Some (number_toString n)
      | JStr s \<Rightarrow> Some (quoteJSONString s)
      | JArr xs \<Rightarrow>
          Some (''['' @
                join '','' (map (\<lambda>x. case serializeJSONProperty r x of
                                          None \<Rightarrow> ''null'' | Some t \<Rightarrow> t) xs) @
                '']'')
      | JObj kvs \<Rightarrow>
          Some (''{'' @
                join '','' (concat (map (\<lambda>kv. case serializeJSONProperty r (snd kv) of
                                                  None \<Rightarrow> []
                                                | Some t \<Rightarrow> [quoteJSONString (fst kv) @ '':'' @ t])
                                        kvs)) @
                ''}'')
      | JBuffer bs \<Rightarrow>
          Some (''{'' @ quoteJSONString ''type'' @ '':'' @ quoteJSONString ''Buffer'' @ '','' @
                quoteJSONString ''data'' @ '':['' @
                join '','' (map string_of_nat bs) @ '']}'')
      | JStream s \<Rightarrow> Some (stream_json r s))"
  by pat_completeness auto
termination
proof (relation "measure (\<lambda>p. size (snd p))")
  show "wf (measure (\<lambda>p. size (snd p)))" by simp
next
  fix r v xs x
  assume a: "apply_replacer r v = JArr xs" and x: "x \<in> set xs"
  from a have "v = JArr xs"
    by (cases r) (auto simp: replacer_def split: if_splits)
  moreover from x have "size x < Suc (size_list size xs)"
    by (induction xs) auto
  ultimately show "((r, x), (r, v)) \<in> measure (\<lambda>p. size (snd p))" by simp
next
  fix r v kvs kv
  assume a: "apply_replacer r v = JObj kvs" and x: "kv \<in> set kvs"
  from a have "v = JObj kvs"
    by (cases r) (auto simp: replacer_def split: if_splits)
  moreover from x have "size (snd kv) < Suc (size_list (size_prod (\<lambda>_. 0) size) kvs)"
    by (induction kvs) auto
  ultimately show "((r, snd kv), (r, v)) \<in> measure (\<lambda>p. size (snd p))" by simp
qed

declare serializeJSONProperty.simps [simp del]

text \<open>
  \<^verbatim>\<open>JSON.stringify(v)\<close> and \<^verbatim>\<open>JSON.stringify(v, replacer)\<close>. The result is a string, or
  \<^verbatim>\<open>undefined\<close> when the value itself serialises to nothing.
\<close>

definition JSON_stringify :: "jsval \<Rightarrow> jsval" where
  "JSON_stringify v =
     (case serializeJSONProperty False v of None \<Rightarrow> JUndefined | Some t \<Rightarrow> JStr t)"

definition JSON_stringify_replacer :: "jsval \<Rightarrow> jsval" where
  "JSON_stringify_replacer v =
     (case serializeJSONProperty True v of None \<Rightarrow> JUndefined | Some t \<Rightarrow> JStr t)"

section \<open>Multipart parts and the environment\<close>

text \<open>
  A part of the multipart body. The source writes its header as
  \<^verbatim>\<open>form-data; name="<id>"\<close>, followed by \<^verbatim>\<open>; filename="<fileName>"\<close> on a binary part;
  the record keeps the two interpolated strings, and \<open>content_disposition\<close> renders the
  header. The body is the string, buffer or stream the source passes.
\<close>

record part =
  part_name :: string
  part_filename :: "string option"
  part_body :: jsval

definition content_disposition :: "part \<Rightarrow> string" where
  "content_disposition p =
     ''form-data; name='' @ [CHR 0x22] @ part_name p @ [CHR 0x22] @
     (case part_filename p of
        None \<Rightarrow> []
      | Some f \<Rightarrow> ''; filename='' @ [CHR 0x22] @ f @ [CHR 0x22])"

text \<open>
  Modelled from the spec: \<^verbatim>\<open>MultipartStream\<close> of \<^verbatim>\<open>./multipart-stream\<close> is imported by
  the source and not part of it. The spec has the encoder append parts to an in-progress
  multipart body, so the form is the list of its parts and \<open>addPart\<close> appends one; the
  spec's ``open byte stream'' is \<open>isStream\<close>.
\<close>

definition addPart :: "part list \<Rightarrow> part \<Rightarrow> part list" where
  "addPart form p = form @ [p]"

fun isStream :: "jsval \<Rightarrow> bool" where
  "isStream (JStream s) = True"
| "isStream v = False"

text \<open>\<^verbatim>\<open>Buffer.isBuffer\<close>.\<close>

fun isBuffer :: "jsval \<Rightarrow> bool" where
  "isBuffer (JBuffer bs) = True"
| "isBuffer v = False"

text \<open>
  What the encoder asks of its surroundings: \<^verbatim>\<open>realpath\<close> and \<^verbatim>\<open>stat(...).isFile()\<close> of
  \<^verbatim>\<open>fs/promises\<close>, which reject with a system error (\<open>Inl\<close> its code, \<^verbatim>\<open>ENOENT\<close> on a
  path that does not exist); \<^verbatim>\<open>fetch\<close>, which resolves to a response with a body stream
  or rejects (\<open>Inl\<close> the message); and the successive results of
  \<^verbatim>\<open>crypto.randomBytes(n).toString('hex')\<close>.
\<close>

record env =
  realpath :: "string \<Rightarrow> string + string"
  stat_isFile :: "string \<Rightarrow> string + bool"
  fetch :: "jsval \<Rightarrow> string + stream"
  randomHex :: "nat \<Rightarrow> string"

text \<open>
  The state of one encoding: the parts appended so far and how many random tokens have
  been drawn. The source starts the fields of a call, and the items of an array,
  together and awaits them with \<^verbatim>\<open>Promise.all\<close>; the model runs them one after the
  other in the order of the mapping, and reports the first error in that order.
\<close>

record enc_state =
  form :: "part list"
  draws :: nat

definition fresh :: "env \<Rightarrow> enc_state \<Rightarrow> string \<times> enc_state" where
  "fresh e st = (randomHex e (draws st), st\<lparr>draws := Suc (draws st)\<rparr>)"

text \<open>
  \<^verbatim>\<open>DEFAULT_EXTENSIONS[id]\<close>, as the text the template literal of the source writes for it.
  The table is a plain object, so besides its seven entries the index finds the members
  it inherits from \<^verbatim>\<open>Object.prototype\<close>: a built-in function, written
  \<^verbatim>\<open>function <name>() { [native code] }\<close>, and under \<^verbatim>\<open>__proto__\<close> the prototype itself.
\<close>

definition native_code :: "string \<Rightarrow> string" where
  "native_code name = ''function '' @ name @ ''() { [native code] }''"

definition DEFAULT_EXTENSIONS :: "string \<Rightarrow> string option" where
  "DEFAULT_EXTENSIONS =
     map_of ([(''audio'', ''mp3''), (''photo'', ''jpg''), (''sticker'', ''webp''),
              (''video'', ''mp4''), (''animation'', ''mp4''), (''video_note'', ''mp4''),
              (''voice'', ''ogg''),
              (''constructor'', native_code ''Object''), (''__proto__'', ''[object Object]'')] @
             map (\<lambda>name. (name, native_code name))
               [''__defineGetter__'', ''__defineSetter__'', ''hasOwnProperty'',
                ''__lookupGetter__'', ''__lookupSetter__'', ''isPrototypeOf'',
                ''propertyIsEnumerable'', ''toString'', ''valueOf'', ''toLocaleString''])"

text \<open>
  \<^verbatim>\<open>path.basename\<close> (POSIX): trailing slashes are dropped, then the text after the last
  remaining slash is taken.
\<close>

definition basename :: "string \<Rightarrow> string" where
  "basename p =
     rev (takeWhile (\<lambda>c. c \<noteq> CHR ''/'') (dropWhile (\<lambda>c. c = CHR ''/'') (rev p)))"

section \<open>The media resolver\<close>

definition not_a_file :: "string \<Rightarrow> error" where
  "not_a_file src = TypeError (''Unable to upload '' @ [CHR 0x27] @ src @ [CHR 0x27] @ '', not a file'')"

definition attachFormMedia :: "env \<Rightarrow> part list \<Rightarrow> jsval \<Rightarrow> string \<Rightarrow> error + part list" where
  "attachFormMedia e frm media ident =
     (case get_prop media ''filename'' of
        Inl err \<Rightarrow> Inl err
      | Inr fname \<Rightarrow>
          let fileName =
                (if nullish fname
                 then JStr (ident @ ''.'' @
                            (case DEFAULT_EXTENSIONS ident of None \<Rightarrow> ''dat'' | Some x \<Rightarrow> x))
                 else fname)
          in
          (case has_in ''url'' media of
             Inl err \<Rightarrow> Inl err
           | Inr has_url \<Rightarrow>
               if has_url \<and> prop_of media ''url'' \<noteq> JUndefined then
                 (case fetch e (prop_of media ''url'') of
                    Inl msg \<Rightarrow> Inl (FetchError msg)
                  | Inr res \<Rightarrow>
                      Inr (addPart frm
                            \<lparr>part_name = ident, part_filename = Some (toString fileName),
                             part_body = JStream res\<rparr>))
               else
                 (case has_in ''source'' media of
                    Inl err \<Rightarrow> Inl err
                  | Inr has_source \<Rightarrow>
                      if has_source \<and> truthy (prop_of media ''source'') then
                        (case prop_of media ''source'' of
                           JStr src \<Rightarrow>
                             (case realpath e src of
                                Inl code \<Rightarrow> Inl (FsError code)
                              | Inr source \<Rightarrow>
                                  (case stat_isFile e source of
                                     Inl code \<Rightarrow> Inl (FsError code)
                                   | Inr is_file \<Rightarrow>
                                       if is_file then
                                         Inr (addPart frm
                                               \<lparr>part_name = ident,
                                                part_filename =
                                                  Some (toString (if nullish fname
                                                                  then JStr (basename src)
                                                                  else fname)),
                                                part_body = JStream (ReadStream src)\<rparr>)
                                       else Inl (not_a_file src)))
                         | mediaSource \<Rightarrow>
                             if isStream mediaSource \<or> isBuffer mediaSource then
                               Inr (addPart frm
                                     \<lparr>part_name = ident, part_filename = Some (toString fileName),
                                      part_body = mediaSource\<rparr>)
                             else Inr frm)
                      else Inr frm)))"

section \<open>The attachment inliner\<close>

text \<open>
  Object spread with later properties, \<^verbatim>\<open>{ ...item, k: v }\<close>: an entry that exists keeps
  its place and takes the new value, a new entry goes to the end. Both uses in the
  source spread an object with own entries.
\<close>

fun set_entry :: "string \<Rightarrow> jsval \<Rightarrow> (string \<times> jsval) list \<Rightarrow> (string \<times> jsval) list" where
  "set_entry k v [] = [(k, v)]"
| "set_entry k v (kv # kvs) = (if fst kv = k then (k, v) # kvs else kv # set_entry k v kvs)"

fun own_entries :: "jsval \<Rightarrow> (string \<times> jsval) list" where
  "own_entries (JObj kvs) = kvs"
| "own_entries v = []"

definition attach_ref :: "string \<Rightarrow> jsval" where
  "attach_ref ident = JStr (''attach://'' @ ident)"

definition text_part :: "string \<Rightarrow> jsval \<Rightarrow> part" where
  "text_part ident b = \<lparr>part_name = ident, part_filename = None, part_body = b\<rparr>"

text \<open>The callback of \<^verbatim>\<open>value.map\<close> in the array branch, for one item.\<close>

definition attachItem :: "env \<Rightarrow> enc_state \<Rightarrow> jsval \<Rightarrow> error + (enc_state \<times> jsval)" where
  "attachItem e st item =
     (case get_prop item ''media'' of
        Inl err \<Rightarrow> Inl err
      | Inr media \<Rightarrow>
          if typeof media \<noteq> TObject then Inr (st, item)
          else
            (case fresh e st of (attachmentId, st1) \<Rightarrow>
               (case attachFormMedia e (form st1) media attachmentId of
                  Inl err \<Rightarrow> Inl err
                | Inr form1 \<Rightarrow>
                    let thumb = (if nullish (prop_of item ''thumb'')
                                 then prop_of item ''thumbnail'' else prop_of item ''thumb'')
                    in
                    if typeof thumb = TObject then
                      (case fresh e (st1\<lparr>form := form1\<rparr>) of (thumbAttachmentId, st2) \<Rightarrow>
                         (case attachFormMedia e (form st2) thumb thumbAttachmentId of
                            Inl err \<Rightarrow> Inl err
                          | Inr form2 \<Rightarrow>
                              Inr (st2\<lparr>form := form2\<rparr>,
                                   JObj (set_entry ''thumbnail'' (attach_ref thumbAttachmentId)
                                          (set_entry ''media'' (attach_ref attachmentId)
                                            (own_entries item))))))
                    else
                      Inr (st1\<lparr>form := form1\<rparr>,
                           JObj (set_entry ''media'' (attach_ref attachmentId)
                                  (own_entries item))))))"

fun attachItems :: "env \<Rightarrow> enc_state \<Rightarrow> jsval list \<Rightarrow> error + (enc_state \<times> jsval list)" where
  "attachItems e st [] = Inr (st, [])"
| "attachItems e st (item # rest) =
     (case attachItem e st item of
        Inl err \<Rightarrow> Inl err
      | Inr r1 \<Rightarrow>
          (case attachItems e (fst r1) rest of
             Inl err \<Rightarrow> Inl err
           | Inr r2 \<Rightarrow> Inr (fst r2, snd r1 # snd r2)))"

definition attachFormValue :: "env \<Rightarrow> enc_state \<Rightarrow> string \<Rightarrow> jsval \<Rightarrow> error + enc_state" where
  "attachFormValue e st ident v =
     (if nullish v then Inr st
      else if typeof v = TString \<or> typeof v = TBoolean \<or> typeof v = TNumber then
        Inr (st\<lparr>form := addPart (form st) (text_part ident (JStr (toString v)))\<rparr>)
      else if ident = ''thumb'' \<or> ident = ''thumbnail'' then
        (case fresh e st of (attachmentId, st1) \<Rightarrow>
           (case attachFormMedia e (form st1) v attachmentId of
              Inl err \<Rightarrow> Inl err
            | Inr form1 \<Rightarrow>
                Inr (st1\<lparr>form := addPart form1 (text_part ident (attach_ref attachmentId))\<rparr>)))
      else if isArray v then
        (case v of
           JArr items \<Rightarrow>
             (case attachItems e st items of
                Inl err \<Rightarrow> Inl err
              | Inr r \<Rightarrow>
                  Inr ((fst r)\<lparr>form := addPart (form (fst r))
                                          (text_part ident (JSON_stringify (JArr (snd r))))\<rparr>))
         | _ \<Rightarrow> Inr st)
      else if truthy v \<and> typeof v = TObject \<and> hasProp v ''media'' \<and> hasProp v ''type'' \<and>
              typeof (prop_of v ''media'') \<noteq> TUndefined \<and>
              typeof (prop_of v ''type'') \<noteq> TUndefined then
        (case fresh e st of (attachmentId, st1) \<Rightarrow>
           (case attachFormMedia e (form st1) (prop_of v ''media'') attachmentId of
              Inl err \<Rightarrow> Inl err
            | Inr form1 \<Rightarrow>
                Inr (st1\<lparr>form := addPart form1
                       (text_part ident
                          (JSON_stringify
                             (JObj (set_entry ''media'' (attach_ref attachmentId)
                                     (own_entries v)))))\<rparr>)))
      else
        (case attachFormMedia e (form st) v ident of
           Inl err \<Rightarrow> Inl err
         | Inr form1 \<Rightarrow> Inr (st\<lparr>form := form1\<rparr>)))"

section \<open>The payload encoder\<close>

record request_init =
  req_method :: string
  req_compress :: bool
  req_headers :: "(string \<times> string) list"

text \<open>The body of a request is a string in JSON mode and the form in multipart mode.\<close>

datatype req_body = TextBody jsval | FormBody "part list"

definition buildJSONConfig :: "(string \<times> jsval) list \<Rightarrow> request_init \<times> req_body" where
  "buildJSONConfig payload =
     (\<lparr>req_method = ''POST'', req_compress = True,
       req_headers = [(''content-type'', ''application/json''), (''connection'', ''keep-alive'')]\<rparr>,
      TextBody (JSON_stringify_replacer (JObj payload)))"

definition FORM_DATA_JSON_FIELDS :: "string list" where
  "FORM_DATA_JSON_FIELDS =
     [''results'', ''reply_markup'', ''mask_position'', ''shipping_options'', ''errors'']"

text \<open>
  The first loop of \<^verbatim>\<open>buildFormDataConfig\<close>, which assigns into the payload: a listed
  field that is present and is not a string is replaced by its JSON text.
\<close>

definition stringify_field :: "string \<Rightarrow> (string \<times> jsval) list \<Rightarrow> (string \<times> jsval) list" where
  "stringify_field field payload =
     (if hasProp (JObj payload) field \<and> typeof (prop_of (JObj payload) field) \<noteq> TString
      then set_entry field (JSON_stringify (prop_of (JObj payload) field)) payload
      else payload)"

definition stringify_json_fields :: "(string \<times> jsval) list \<Rightarrow> (string \<times> jsval) list" where
  "stringify_json_fields payload = fold stringify_field FORM_DATA_JSON_FIELDS payload"

text \<open>
  \<^verbatim>\<open>Promise.all(Object.keys(payload).map((key) => attachFormValue(formData, key,
  payload[key], agent)))\<close>.
\<close>

fun attachAll :: "env \<Rightarrow> (string \<times> jsval) list \<Rightarrow> enc_state \<Rightarrow> string list \<Rightarrow> error + enc_state" where
  "attachAll e payload st [] = Inr st"
| "attachAll e payload st (key # keys) =
     (case attachFormValue e st key (prop_of (JObj payload) key) of
        Inl err \<Rightarrow> Inl err
      | Inr st1 \<Rightarrow> attachAll e payload st1 keys)"

text \<open>
  \<^verbatim>\<open>buildFormDataConfig\<close>. The boundary is the first random token of the call; the result
  carries the state reached, whose form is the body.
\<close>

definition buildFormDataConfig ::
  "env \<Rightarrow> nat \<Rightarrow> (string \<times> jsval) list \<Rightarrow> error + (request_init \<times> req_body)" where
  "buildFormDataConfig e n payload0 =
     (let payload = stringify_json_fields payload0;
          boundary = randomHex e n
      in case attachAll e payload \<lparr>form = [], draws = Suc n\<rparr> (map fst payload) of
           Inl err \<Rightarrow> Inl err
         | Inr st \<Rightarrow>
             Inr (\<lparr>req_method = ''POST'', req_compress = True,
                   req_headers = [(''content-type'', ''multipart/form-data; boundary='' @ boundary),
                                  (''connection'', ''keep-alive'')]\<rparr>,
                  FormBody (form st)))"

text \<open>
  Modelled from the spec: the caller that selects the encoding mode is not in the
  source. The spec's selection rule: multipart mode if, and only if, the structural scan
  finds an attachment; otherwise JSON mode.
\<close>

definition encode ::
  "env \<Rightarrow> nat \<Rightarrow> (string \<times> jsval) list \<Rightarrow> error + (request_init \<times> req_body)" where
  "encode e n payload =
     (case includesMedia payload of
        Inl err \<Rightarrow> Inl err
      | Inr multipart \<Rightarrow>
          if multipart then buildFormDataConfig e n payload else Inr (buildJSONConfig payload))"

section \<open>The webhook reply\<close>

text \<open>
  The inbound response: whether its headers have gone out, the headers set on it, the
  chunks written and whether it has been ended. \<^verbatim>\<open>response.end(data)\<close> writes the data,
  which sends the headers, and ends the response.
\<close>

record response =
  headersSent :: bool
  res_headers :: "(string \<times> string) list"
  written :: "jsval list"
  ended :: bool

fun setHeader :: "string \<Rightarrow> string \<Rightarrow> (string \<times> string) list \<Rightarrow> (string \<times> string) list" where
  "setHeader k v [] = [(k, v)]"
| "setHeader k v (h # hs) = (if fst h = k then (k, v) # hs else h # setHeader k v hs)"

definition response_end :: "jsval \<Rightarrow> response \<Rightarrow> response" where
  "response_end chunk r = r\<lparr>headersSent := True, written := written r @ [chunk], ended := True\<rparr>"

text \<open>
  \<^verbatim>\<open>answerToWebhook\<close>. The test on \<^verbatim>\<open>includesMedia\<close> is commented out in the source, so the
  statements of the first branch run for every payload and the function returns
  \<^verbatim>\<open>true\<close> there; the multipart statements that follow the \<^verbatim>\<open>return\<close> are never reached
  and have no counterpart here.
\<close>

definition answerToWebhook :: "response \<Rightarrow> (string \<times> jsval) list \<Rightarrow> 'options \<Rightarrow> bool \<times> response" where
  "answerToWebhook r payload options =
     (let r1 = (if \<not> headersSent r
                then r\<lparr>res_headers := setHeader ''content-type'' ''application/json'' (res_headers r)\<rparr>
                else r)
      in (True, response_end (JSON_stringify (JObj payload)) r1))"

section \<open>Token redaction\<close>

text \<open>
  The regular expression \<^verbatim>\<open>/\/(bot|user)(\d+):[^/]+\//\<close> tried at the start of a string:
  the two groups and the text after the match. Both repetitions are greedy and each
  is followed by a character its class excludes, so the longest run is the only
  candidate.
\<close>

definition is_digit :: "char \<Rightarrow> bool" where
  "is_digit c = (c \<in> set ''0123456789'')"

definition match_prefix :: "string \<Rightarrow> string \<Rightarrow> string option" where
  "match_prefix p s = (if take (length p) s = p then Some (drop (length p) s) else None)"

definition match_kind :: "string \<Rightarrow> (string \<times> string) option" where
  "match_kind s =
     (case match_prefix ''bot'' s of
        Some t \<Rightarrow> Some (''bot'', t)
      | None \<Rightarrow> (case match_prefix ''user'' s of Some t \<Rightarrow> Some (''user'', t) | None \<Rightarrow> None))"

definition match_here :: "string \<Rightarrow> (string \<times> string \<times> string) option" where
  "match_here s =
     (case match_prefix ''/'' s of
        None \<Rightarrow> None
      | Some s1 \<Rightarrow>
          (case match_kind s1 of
             None \<Rightarrow> None
           | Some (kind, s2) \<Rightarrow>
               let ds = takeWhile is_digit s2; s3 = dropWhile is_digit s2 in
               if ds = [] then None
               else (case match_prefix '':'' s3 of
                       None \<Rightarrow> None
                     | Some s4 \<Rightarrow>
                         let secret = takeWhile (\<lambda>c. c \<noteq> CHR ''/'') s4;
                             s5 = dropWhile (\<lambda>c. c \<noteq> CHR ''/'') s4
                         in if secret = [] then None
                            else (case match_prefix ''/'' s5 of
                                    None \<Rightarrow> None
                                  | Some rest \<Rightarrow> Some (kind, ds, rest)))))"

text \<open>
  \<^verbatim>\<open>message.replace(re, '/$1$2:[REDACTED]/')\<close>: the expression has no \<^verbatim>\<open>g\<close> flag, so the
  leftmost match is replaced and the rest of the string is copied.
\<close>

fun redact :: "string \<Rightarrow> string" where
  "redact [] = []"
| "redact (c # cs) =
     (case match_here (c # cs) of
        Some (kind, ds, rest) \<Rightarrow> ''/'' @ kind @ ds @ '':[REDACTED]/'' @ rest
      | None \<Rightarrow> c # redact cs)"

record js_error =
  err_name :: string
  err_message :: string

text \<open>\<^verbatim>\<open>redactToken\<close> never returns: it rewrites the message and throws the error.\<close>

definition redactToken :: "js_error \<Rightarrow> js_error + unit" where
  "redactToken err = Inl (err\<lparr>err_message := redact (err_message err)\<rparr>)"

section \<open>The statements of the specification\<close>

subsection \<open>What the scan looks for\<close>

text \<open>
  The specification's wording of the selection rule: an attachment reference is ``an
  object or array element carrying a \<^verbatim>\<open>source\<close> or \<^verbatim>\<open>url\<close> key, directly or nested one
  level under a \<^verbatim>\<open>media\<close> key'', and fields named \<^verbatim>\<open>link_preview_options\<close> are left out.
\<close>

definition spec_carries_ref :: "jsval \<Rightarrow> bool" where
  "spec_carries_ref v = (hasProp v ''source'' \<or> hasProp v ''url'')"

definition spec_attachment_ref :: "jsval \<Rightarrow> bool" where
  "spec_attachment_ref v = (spec_carries_ref v \<or> spec_carries_ref (prop_of v ''media''))"

definition spec_includesMedia :: "(string \<times> jsval) list \<Rightarrow> bool" where
  "spec_includesMedia payload =
     list_ex (\<lambda>kv. fst kv \<noteq> ''link_preview_options'' \<and>
                   (case snd kv of
                      JArr items \<Rightarrow> list_ex spec_attachment_ref items
                    | v \<Rightarrow> spec_attachment_ref v)) payload"

text \<open>
  What the scan of the source finds: a reference is live when its \<^verbatim>\<open>source\<close> or \<^verbatim>\<open>url\<close>
  is truthy. An object counts when it is a live reference itself or holds one under
  \<^verbatim>\<open>media\<close>; an element of an array counts only when it holds one under \<^verbatim>\<open>media\<close>.
\<close>

definition live_ref :: "jsval \<Rightarrow> bool" where
  "live_ref v = (truthy (prop_of v ''source'') \<or> truthy (prop_of v ''url''))"

definition media_ref :: "jsval \<Rightarrow> bool" where
  "media_ref v = (typeof (prop_of v ''media'') = TObject \<and> live_ref (prop_of v ''media''))"

definition attachment_shaped :: "string \<times> jsval \<Rightarrow> bool" where
  "attachment_shaped kv =
     (fst kv \<noteq> ''link_preview_options'' \<and>
      (case snd kv of
         JArr items \<Rightarrow> list_ex media_ref items
       | v \<Rightarrow> live_ref v \<or> media_ref v))"

text \<open>
  The scan destructures every element of an array-valued field, so such an array must
  hold no \<^verbatim>\<open>null\<close> or \<^verbatim>\<open>undefined\<close> element for the scan to return.
\<close>

definition scannable :: "(string \<times> jsval) list \<Rightarrow> bool" where
  "scannable payload =
     list_all (\<lambda>kv. fst kv = ''link_preview_options'' \<or>
                    (case snd kv of
                       JArr items \<Rightarrow> list_all (\<lambda>i. \<not> nullish i) items
                     | v \<Rightarrow> True)) payload"


subsection \<open>A sample environment\<close>

text \<open>
  An environment for the worked examples: \<^verbatim>\<open>/tmp/x.jpg\<close> is a regular file, \<^verbatim>\<open>/tmp\<close> a
  directory, \<^verbatim>\<open>/tmp/link\<close> a symbolic link to the file, and no other path exists; every
  fetch is refused; the random tokens are \<^verbatim>\<open>a\<close>, \<^verbatim>\<open>aa\<close>, \<^verbatim>\<open>aaa\<close>, and so on.
\<close>

definition demo_env :: env where
  "demo_env =
     \<lparr>realpath = (\<lambda>p. if p = ''/tmp/x.jpg'' \<or> p = ''/tmp/link'' then Inr ''/tmp/x.jpg''
                      else if p = ''/tmp'' then Inr ''/tmp''
                      else Inl ''ENOENT''),
      stat_isFile = (\<lambda>p. if p = ''/tmp/x.jpg'' then Inr True
                         else if p = ''/tmp'' then Inr False
                         else Inl ''ENOENT''),
      fetch = (\<lambda>u. Inl ''ECONNREFUSED''),
      randomHex = (\<lambda>n. replicate (Suc n) (CHR ''a''))\<rparr>"

subsection \<open>The error kinds of the specification\<close>

text \<open>
  The specification names the kinds of error: an invalid attachment source (``a string
  source path does not resolve to a regular file'', the one error the source constructs
  itself), a transport failure (of \<^verbatim>\<open>fetch\<close>), a file system failure (``stat/symlink/read
  error'') and generic structural errors.
\<close>

datatype error_kind = InvalidAttachmentSource | TransportFailure | FilesystemFailure | StructuralError

fun kind_of :: "error \<Rightarrow> error_kind" where
  "kind_of (TypeError msg) = InvalidAttachmentSource"
| "kind_of (FetchError msg) = TransportFailure"
| "kind_of (FsError code) = FilesystemFailure"
| "kind_of JsTypeError = StructuralError"

subsection \<open>The mapping without its nullish keys\<close>

text \<open>
  The specification's ``input mapping with all nullish-valued keys (at any depth)
  removed'': every entry of an object whose value is \<^verbatim>\<open>null\<close> or \<^verbatim>\<open>undefined\<close> is dropped, in
  the object itself and in every object below it; arrays keep their elements. A stream of
  the caller without such entries is the stream whose plain text is the text the
  replacer leaves.
\<close>

fun strip_nullish :: "jsval \<Rightarrow> jsval" where
  "strip_nullish (JObj kvs) =
     JObj (map (\<lambda>kv. (fst kv, strip_nullish (snd kv))) (filter (\<lambda>kv. \<not> nullish (snd kv)) kvs))"
| "strip_nullish (JArr xs) = JArr (map strip_nullish xs)"
| "strip_nullish (JStream (UserStream n plain replaced)) = JStream (UserStream n replaced replaced)"
| "strip_nullish v = v"

subsection \<open>The items of an array-valued field\<close>

text \<open>A value is a reference \<^verbatim>\<open>attach://<id>\<close> when it is a string with that prefix.\<close>

definition is_attach_ref :: "jsval \<Rightarrow> bool" where
  "is_attach_ref v = (case v of JStr s \<Rightarrow> take 9 s = ''attach://'' | _ \<Rightarrow> False)"




subsection \<open>Generated identifiers and the parts they name\<close>


text \<open>
  The parts \<open>ps\<close> added while the count of random tokens drawn went from \<open>n\<close> to \<open>n'\<close>: each
  is named by a field name of \<open>K\<close> or by one of the tokens drawn, and no token names two
  of them.
\<close>

definition names_ok :: "env \<Rightarrow> string set \<Rightarrow> nat \<Rightarrow> nat \<Rightarrow> part list \<Rightarrow> bool" where
  "names_ok e K n n' ps =
     (n \<le> n' \<and> part_name ` set ps \<subseteq> K \<union> randomHex e ` {n..<n'} \<and>
      (\<forall>j. count_list (map part_name ps) (randomHex e j) \<le> 1))"

subsection \<open>Reading JSON text back\<close>















text \<open>What may follow a value inside a JSON text: nothing, a comma or a closing bracket.\<close>

definition delimited :: "string \<Rightarrow> bool" where
  "delimited rest = (rest = [] \<or> hd rest \<in> set '',]}'')"


section \<open>The scan decides the encoding mode\<close>

lemma truthy_prop_of: "truthy (prop_of x k) \<Longrightarrow> truthy x"
  by (cases x) auto

lemma includesMedia_item_ok:
  "\<not> nullish item \<Longrightarrow> includesMedia_item item = Inr (media_ref item)"
  by (cases item)
     (auto simp: includesMedia_item_def media_ref_def live_ref_def
           dest: truthy_prop_of split: option.splits)

lemma some_err_items:
  "list_all (\<lambda>i. \<not> nullish i) items \<Longrightarrow>
   some_err includesMedia_item items = Inr (list_ex media_ref items)"
  by (induction items) (auto simp: includesMedia_item_ok)

lemma hasProp_truthy: "(hasProp v k \<and> truthy (prop_of v k)) = truthy (prop_of v k)"
  by (cases v) (auto split: option.splits)

lemma includesMedia_entry_ok:
  assumes "fst kv = ''link_preview_options'' \<or>
        (case snd kv of JArr items \<Rightarrow> list_all (\<lambda>i. \<not> nullish i) items | _ \<Rightarrow> True)"
  shows "includesMedia_entry kv = Inr (attachment_shaped kv)"
proof (cases kv)
  case (Pair key v)
  show ?thesis
  proof (cases "key = ''link_preview_options''")
    case True
    with Pair show ?thesis by (simp add: includesMedia_entry_def attachment_shaped_def)
  next
    case False
    show ?thesis
    proof (cases v)
      case (JArr items)
      with Pair False assms show ?thesis
        by (simp add: includesMedia_entry_def attachment_shaped_def some_err_items)
    next
      case (JObj kvs)
      with Pair False show ?thesis
        apply (simp add: includesMedia_entry_def attachment_shaped_def hasPropType_def
                 live_ref_def media_ref_def hasProp_truthy)
        apply (auto split: option.splits)
        done
    qed (use Pair False in \<open>auto simp: includesMedia_entry_def attachment_shaped_def
           hasPropType_def live_ref_def media_ref_def\<close>)
  qed
qed

lemma includesMedia_scannable:
  "scannable payload \<Longrightarrow> includesMedia payload = Inr (list_ex attachment_shaped payload)"
  unfolding includesMedia_def scannable_def
proof (induction payload)
  case Nil
  show ?case by simp
next
  case (Cons kv payload)
  then have "includesMedia_entry kv = Inr (attachment_shaped kv)"
    by (intro includesMedia_entry_ok) auto
  with Cons show ?case by simp
qed

text \<open>
  C1, as the specification words it, fails on the source. A field whose array holds an
  element that carries \<^verbatim>\<open>source\<close> directly is an attachment reference in the
  specification's words, and so is an object whose \<^verbatim>\<open>source\<close> is the empty string; the
  scan answers false on both.
\<close>

theorem C1_includesMedia_counterexample:
  "spec_includesMedia [(''media'', JArr [JObj [(''source'', JStr ''/tmp/x.jpg'')]])] \<and>
   includesMedia [(''media'', JArr [JObj [(''source'', JStr ''/tmp/x.jpg'')]])] = Inr False \<and>
   spec_includesMedia [(''photo'', JObj [(''source'', JStr '''')])] \<and>
   includesMedia [(''photo'', JObj [(''source'', JStr '''')])] = Inr False"
  by (simp add: spec_includesMedia_def spec_attachment_ref_def spec_carries_ref_def
        includesMedia_def includesMedia_entry_def includesMedia_item_def hasPropType_def)

text \<open>
  C1, amended: for every parameter mapping whose array-valued fields hold no \<^verbatim>\<open>null\<close> or
  \<^verbatim>\<open>undefined\<close> element, \<open>includesMedia\<close> returns true if, and only if, some field not
  named \<^verbatim>\<open>link_preview_options\<close> is an object with a truthy \<^verbatim>\<open>source\<close> or \<^verbatim>\<open>url\<close>, directly
  or one level under an object-valued \<^verbatim>\<open>media\<close>, or is an array with an element that has
  a truthy \<^verbatim>\<open>source\<close> or \<^verbatim>\<open>url\<close> under an object-valued \<^verbatim>\<open>media\<close>; otherwise it returns
  false.
\<close>

theorem C1_includesMedia_scan:
  "scannable payload \<Longrightarrow> includesMedia payload = Inr (list_ex attachment_shaped payload)"
  by (rule includesMedia_scannable)

theorem C1_includesMedia_scan_witness:
  "scannable [(''photo'', JObj [(''source'', JBuffer [1, 2])]), (''caption'', JStr ''hi'')] \<and>
   includesMedia [(''photo'', JObj [(''source'', JBuffer [1, 2])]), (''caption'', JStr ''hi'')]
     = Inr True"
  using C1_includesMedia_scan
          [of "[(''photo'', JObj [(''source'', JBuffer [1, 2])]), (''caption'', JStr ''hi'')]"]
  by (simp add: scannable_def attachment_shaped_def live_ref_def media_ref_def)

section \<open>The webhook reply\<close>

text \<open>
  C9: for every payload, \<open>answerToWebhook\<close> takes the JSON branch: it sets the
  \<^verbatim>\<open>content-type\<close> header only if the headers were not yet sent, writes the JSON text of the
  payload onto the response and ends it, and resolves to true. No condition on the payload
  appears, and the function builds no form: the multipart statements are unreachable.
\<close>

theorem C9_answerToWebhook_json:
  "answerToWebhook r payload options =
     (True,
      r\<lparr>headersSent := True,
        res_headers := (if headersSent r then res_headers r
                        else setHeader ''content-type'' ''application/json'' (res_headers r)),
        written := written r @ [JSON_stringify (JObj payload)],
        ended := True\<rparr>)"
  by (simp add: answerToWebhook_def response_end_def Let_def)

text \<open>An instance: a payload in which the scan finds an attachment is written as JSON all the same.\<close>

theorem C9_answerToWebhook_json_witness:
  "includesMedia [(''photo'', JObj [(''source'', JBuffer [1, 2])])] = Inr True \<and>
   answerToWebhook \<lparr>headersSent = False, res_headers = [], written = [], ended = False\<rparr>
       [(''photo'', JObj [(''source'', JBuffer [1, 2])])] () =
     (True,
      \<lparr>headersSent = True, res_headers = [(''content-type'', ''application/json'')],
       written = [JSON_stringify (JObj [(''photo'', JObj [(''source'', JBuffer [1, 2])])])],
       ended = True\<rparr>)"
  using C9_answerToWebhook_json
          [of "\<lparr>headersSent = False, res_headers = [], written = [], ended = False\<rparr>"
              "[(''photo'', JObj [(''source'', JBuffer [1, 2])])]" "()"]
  by (simp add: includesMedia_def includesMedia_entry_def hasPropType_def)

section \<open>A string under \<^verbatim>\<open>media\<close> of a plain object\<close>

text \<open>
  C10: there is an input of multipart mode on which encoding fails. The field \<^verbatim>\<open>media\<close>
  holds an object with \<^verbatim>\<open>type\<close> and \<^verbatim>\<open>media\<close> defined, where \<^verbatim>\<open>media\<close> is a string, an
  already resolved reference. \<open>attachFormValue\<close> hands the string to \<open>attachFormMedia\<close>,
  where \<^verbatim>\<open>'url' in media\<close> raises on it, in every environment and state; so the whole
  encoding fails. The array branch, given the same item, passes it through unchanged.
\<close>

theorem C10_string_media_raises:
  "includesMedia [(''photo'', JObj [(''source'', JBuffer [1])]),
                  (''media'', JObj [(''type'', JStr ''photo''), (''media'', JStr ''AgACAgI'')])]
     = Inr True \<and>
   attachFormValue e st ''media''
      (JObj [(''type'', JStr ''photo''), (''media'', JStr ''AgACAgI'')]) = Inl JsTypeError \<and>
   buildFormDataConfig e n
      [(''photo'', JObj [(''source'', JBuffer [1])]),
       (''media'', JObj [(''type'', JStr ''photo''), (''media'', JStr ''AgACAgI'')])]
     = Inl JsTypeError \<and>
   attachItem e st (JObj [(''type'', JStr ''photo''), (''media'', JStr ''AgACAgI'')])
     = Inr (st, JObj [(''type'', JStr ''photo''), (''media'', JStr ''AgACAgI'')])"
  by (simp add: includesMedia_def includesMedia_entry_def hasPropType_def
        attachFormValue_def attachFormMedia_def fresh_def attachItem_def
        buildFormDataConfig_def stringify_json_fields_def stringify_field_def
        FORM_DATA_JSON_FIELDS_def addPart_def Let_def DEFAULT_EXTENSIONS_def)

section \<open>Token redaction\<close>


text \<open>
  C8: the claim is right and the source misses it. \<open>redactToken\<close> rewrites the message with
  a regular expression that has no \<^verbatim>\<open>g\<close> flag, so \<^verbatim>\<open>String.prototype.replace\<close> rewrites the
  first credential path only. A message with one credential path is thrown on with the
  secret replaced, as the claim has it; a message that names the request twice is
  thrown on with the second secret in it.
\<close>

theorem C8_redactToken_first_match_only:
  "redactToken \<lparr>err_name = ''FetchError'',
                err_message =
                  ''request to https://api.telegram.org/bot12345:ABCDEF/sendMessage failed''\<rparr>
     = Inl \<lparr>err_name = ''FetchError'',
            err_message =
              ''request to https://api.telegram.org/bot12345:[REDACTED]/sendMessage failed''\<rparr> \<and>
   redactToken \<lparr>err_name = ''FetchError'',
                err_message = ''/bot12345:ABCDEF/getMe failed, retried /bot12345:ABCDEF/getMe''\<rparr>
     = Inl \<lparr>err_name = ''FetchError'',
            err_message = ''/bot12345:[REDACTED]/getMe failed, retried /bot12345:ABCDEF/getMe''\<rparr> \<and>
   sublist ''/bot12345:ABCDEF/''
     (''/bot12345:[REDACTED]/getMe failed, retried '' @ ''/bot12345:ABCDEF/'' @ ''getMe'')"
proof (intro conjI)
  show "redactToken \<lparr>err_name = ''FetchError'',
                err_message =
                  ''request to https://api.telegram.org/bot12345:ABCDEF/sendMessage failed''\<rparr>
     = Inl \<lparr>err_name = ''FetchError'',
            err_message =
              ''request to https://api.telegram.org/bot12345:[REDACTED]/sendMessage failed''\<rparr>"
    by code_simp
  show "redactToken \<lparr>err_name = ''FetchError'',
                err_message = ''/bot12345:ABCDEF/getMe failed, retried /bot12345:ABCDEF/getMe''\<rparr>
     = Inl \<lparr>err_name = ''FetchError'',
            err_message = ''/bot12345:[REDACTED]/getMe failed, retried /bot12345:ABCDEF/getMe''\<rparr>"
    by code_simp
  show "sublist ''/bot12345:ABCDEF/''
     (''/bot12345:[REDACTED]/getMe failed, retried '' @ ''/bot12345:ABCDEF/'' @ ''getMe'')"
    by (rule sublist_appendI)
qed

section \<open>JSON mode\<close>


lemma serialize_None_iff: "serializeJSONProperty False v = None \<longleftrightarrow> v = JUndefined"
  by (subst serializeJSONProperty.simps) (simp split: jsval.splits)


lemma nullish_strip [simp]: "nullish v \<Longrightarrow> strip_nullish v = v"
  by (cases v) simp_all












subsection \<open>Reading the body back\<close>



























lemma delimited_simps [simp]:
  "delimited []" "delimited (CHR '','' # s)" "delimited (CHR '']'' # s)" "delimited (CHR ''}'' # s)"
  by (simp_all add: delimited_def)
















section \<open>The form only grows\<close>

lemma attachFormMedia_result:
  assumes "attachFormMedia e frm m ident = Inr frm'"
  shows "frm' = frm \<or>
         (\<exists>p. frm' = frm @ [p] \<and> part_name p = ident \<and> part_filename p \<noteq> None \<and>
              (isStream (part_body p) \<or> isBuffer (part_body p)))"
  using assms
  by (auto simp: attachFormMedia_def addPart_def Let_def
        split: sum.splits if_splits jsval.splits)

lemma attachItem_grows:
  assumes "attachItem e st item = Inr (st', item')"
  shows "\<exists>ps. form st' = form st @ ps \<and> (\<forall>p\<in>set ps. part_filename p \<noteq> None)"
proof -
  show ?thesis
    using assms
    apply (auto simp: attachItem_def fresh_def Let_def split: sum.splits if_splits)
    apply (drule attachFormMedia_result, auto)+
    done
qed


lemma attachItems_grows:
  "attachItems e st items = Inr (st', items') \<Longrightarrow>
   \<exists>ps. form st' = form st @ ps \<and> (\<forall>p\<in>set ps. part_filename p \<noteq> None)"
proof (induction items arbitrary: st st' items')
  case Nil
  then show ?case by simp
next
  case (Cons item rest)
  from Cons.prems obtain st1 item1 st2 rest2
    where a: "attachItem e st item = Inr (st1, item1)"
      and b: "attachItems e st1 rest = Inr (st2, rest2)"
      and c: "st' = st2"
    by (auto split: sum.splits)
  from attachItem_grows [OF a] obtain ps1
    where p1: "form st1 = form st @ ps1" "\<forall>p\<in>set ps1. part_filename p \<noteq> None" by blast
  from Cons.IH [OF b] obtain ps2
    where p2: "form st2 = form st1 @ ps2" "\<forall>p\<in>set ps2. part_filename p \<noteq> None" by blast
  from p1 p2 c have "form st' = form st @ (ps1 @ ps2)" by simp
  moreover from p1 p2 have "\<forall>p\<in>set (ps1 @ ps2). part_filename p \<noteq> None" by auto
  ultimately show ?case by blast
qed

lemma attachFormValue_grows:
  assumes "attachFormValue e st key v = Inr st'"
  shows "\<exists>ps. form st' = form st @ ps"
proof -
  consider (nul) "nullish v"
    | (scalar) "\<not> nullish v" "typeof v = TString \<or> typeof v = TBoolean \<or> typeof v = TNumber"
    | (thumb) "\<not> nullish v" "typeof v = TObject" "key = ''thumb'' \<or> key = ''thumbnail''"
    | (arr) items where "key \<noteq> ''thumb''" "key \<noteq> ''thumbnail''" "v = JArr items"
    | (other) "\<not> nullish v" "typeof v = TObject" "key \<noteq> ''thumb''" "key \<noteq> ''thumbnail''"
        "\<not> isArray v"
    by (cases v) auto
  then show ?thesis
  proof cases
    case nul
    with assms show ?thesis by (simp add: attachFormValue_def)
  next
    case scalar
    with assms show ?thesis by (auto simp: attachFormValue_def addPart_def)
  next
    case thumb
    with assms show ?thesis
      by (auto simp: attachFormValue_def addPart_def fresh_def split: sum.splits
            dest!: attachFormMedia_result)
  next
    case arr
    with assms show ?thesis
      by (auto simp: attachFormValue_def addPart_def split: sum.splits
            dest!: attachItems_grows)
  next
    case other
    with assms show ?thesis
      by (auto simp: attachFormValue_def addPart_def fresh_def split: sum.splits if_splits
            dest!: attachFormMedia_result)
  qed
qed

lemma attachAll_grows:
  "attachAll e payload st keys = Inr st' \<Longrightarrow> \<exists>ps. form st' = form st @ ps"
proof (induction keys arbitrary: st)
  case Nil
  then show ?case by simp
next
  case (Cons key keys)
  from Cons.prems obtain st1
    where a: "attachFormValue e st key (prop_of (JObj payload) key) = Inr st1"
      and b: "attachAll e payload st1 keys = Inr st'"
    by (auto split: sum.splits)
  from attachFormValue_grows [OF a] Cons.IH [OF b] show ?case by auto
qed

section \<open>The fields sent as JSON text\<close>

lemma map_of_set_entry: "map_of (set_entry k x p) = (map_of p)(k \<mapsto> x)"
  by (induction p) (auto simp: fun_eq_iff)

lemma keys_set_entry: "map_of p k \<noteq> None \<Longrightarrow> map fst (set_entry k x p) = map fst p"
  by (induction p) (auto split: if_splits)

lemma keys_stringify_field: "map fst (stringify_field g p) = map fst p"
  by (simp add: stringify_field_def keys_set_entry)

lemma map_of_stringify_field_other:
  "f \<noteq> g \<Longrightarrow> map_of (stringify_field g p) f = map_of p f"
  by (simp add: stringify_field_def map_of_set_entry)

lemma map_of_stringify_field_same:
  "map_of p f = Some v \<Longrightarrow>
   map_of (stringify_field f p) f = Some (if typeof v = TString then v else JSON_stringify v)"
  by (simp add: stringify_field_def map_of_set_entry)

lemma map_of_fold_other:
  "f \<notin> set fs \<Longrightarrow> map_of (fold stringify_field fs p) f = map_of p f"
  by (induction fs arbitrary: p) (auto simp: map_of_stringify_field_other)

lemma map_of_fold_same:
  "distinct fs \<Longrightarrow> f \<in> set fs \<Longrightarrow> map_of p f = Some v \<Longrightarrow>
   map_of (fold stringify_field fs p) f =
     Some (if typeof v = TString then v else JSON_stringify v)"
proof (induction fs arbitrary: p)
  case Nil
  then show ?case by simp
next
  case (Cons g fs)
  show ?case
  proof (cases "f = g")
    case True
    with Cons.prems have "f \<notin> set fs" by auto
    then have "map_of (fold stringify_field fs (stringify_field g p)) f =
               map_of (stringify_field g p) f"
      by (rule map_of_fold_other)
    with True Cons.prems(3) show ?thesis
      by (simp add: map_of_stringify_field_same)
  next
    case False
    with Cons.prems have "distinct fs" "f \<in> set fs" "map_of (stringify_field g p) f = Some v"
      by (auto simp: map_of_stringify_field_other)
    from Cons.IH [OF this] show ?thesis by simp
  qed
qed

lemma keys_fold: "map fst (fold stringify_field fs p) = map fst p"
  by (induction fs arbitrary: p) (auto simp: keys_stringify_field)

lemma stringify_json_fields_value:
  assumes "f \<in> set FORM_DATA_JSON_FIELDS" and "map_of payload f = Some v"
  shows "map_of (stringify_json_fields payload) f =
           Some (if typeof v = TString then v else JSON_stringify v)"
  unfolding stringify_json_fields_def
  by (rule map_of_fold_same) (use assms in \<open>auto simp: FORM_DATA_JSON_FIELDS_def\<close>)

lemma stringify_json_fields_keys: "map fst (stringify_json_fields payload) = map fst payload"
  by (simp add: stringify_json_fields_def keys_fold)

lemma JSON_stringify_defined: "v \<noteq> JUndefined \<Longrightarrow> \<exists>s. JSON_stringify v = JStr s"
  using serialize_None_iff [of v] by (auto simp: JSON_stringify_def split: option.splits)

lemma attachFormValue_string:
  "attachFormValue e st key (JStr s) = Inr (st\<lparr>form := form st @ [text_part key (JStr s)]\<rparr>)"
  by (simp add: attachFormValue_def addPart_def)

lemma attachAll_string_part:
  "attachAll e payload st keys = Inr st' \<Longrightarrow> key \<in> set keys \<Longrightarrow>
   map_of payload key = Some (JStr s) \<Longrightarrow> text_part key (JStr s) \<in> set (form st')"
proof (induction keys arbitrary: st)
  case Nil
  then show ?case by simp
next
  case (Cons k keys)
  from Cons.prems(1) obtain st1
    where a: "attachFormValue e st k (prop_of (JObj payload) k) = Inr st1"
      and b: "attachAll e payload st1 keys = Inr st'"
    by (auto split: sum.splits)
  show ?case
  proof (cases "k = key")
    case True
    with a Cons.prems(3) have "form st1 = form st @ [text_part key (JStr s)]"
      by (auto simp: attachFormValue_string)
    moreover from attachAll_grows [OF b] obtain ps where "form st' = form st1 @ ps" ..
    ultimately show ?thesis by simp
  next
    case False
    with Cons.prems(2) have "key \<in> set keys" by simp
    from Cons.IH [OF b this Cons.prems(3)] show ?thesis .
  qed
qed

text \<open>
  C6, amended: in multipart mode, for every field of the allowlist (\<^verbatim>\<open>results\<close>,
  \<^verbatim>\<open>reply_markup\<close>, \<^verbatim>\<open>mask_position\<close>, \<^verbatim>\<open>shipping_options\<close>, \<^verbatim>\<open>errors\<close>) present with a value
  other than \<^verbatim>\<open>undefined\<close>, the value the inliner sees is a string, the value itself if it
  was a string and its JSON text otherwise, and the body holds the textual part of that
  field with that string. JSON mode runs no such pass.
\<close>

theorem C6_json_fields_multipart:
  assumes "f \<in> set FORM_DATA_JSON_FIELDS" and "map_of payload f = Some v" and "v \<noteq> JUndefined"
    and "buildFormDataConfig e n payload = Inr (cfg, FormBody parts)"
  shows "\<exists>s. (if typeof v = TString then v = JStr s else JSON_stringify v = JStr s) \<and>
             map_of (stringify_json_fields payload) f = Some (JStr s) \<and>
             text_part f (JStr s) \<in> set parts"
proof -
  obtain s where s: "(if typeof v = TString then v else JSON_stringify v) = JStr s"
  proof (cases "typeof v = TString")
    case True
    then obtain t where "v = JStr t" by (cases v) auto
    with True that show ?thesis by simp
  next
    case False
    with JSON_stringify_defined [OF assms(3)] that show ?thesis by auto
  qed
  from stringify_json_fields_value [OF assms(1,2)] s
  have m: "map_of (stringify_json_fields payload) f = Some (JStr s)" by simp
  from assms(2) have "f \<in> set (map fst payload)"
    by (metis map_of_eq_None_iff option.distinct(1) set_map)
  then have k: "f \<in> set (map fst (stringify_json_fields payload))"
    by (simp add: stringify_json_fields_keys)
  from assms(4) obtain st where
    a: "attachAll e (stringify_json_fields payload) \<lparr>form = [], draws = Suc n\<rparr>
          (map fst (stringify_json_fields payload)) = Inr st" and p: "parts = form st"
    by (auto simp: buildFormDataConfig_def Let_def split: sum.splits)
  from attachAll_string_part [OF a k m] p have "text_part f (JStr s) \<in> set parts" by simp
  with s m show ?thesis by (auto split: if_splits)
qed


text \<open>An instance: an object under \<^verbatim>\<open>reply_markup\<close>, next to a photo, is sent as its JSON text.\<close>

theorem C6_json_fields_multipart_witness:
  "''reply_markup'' \<in> set FORM_DATA_JSON_FIELDS \<and>
   map_of [(''photo'', JObj [(''source'', JBuffer [1])]),
           (''reply_markup'', JObj [(''a'', JNum 1)])] ''reply_markup''
     = Some (JObj [(''a'', JNum 1)]) \<and>
   JObj [(''a'', JNum 1)] \<noteq> JUndefined \<and>
   buildFormDataConfig demo_env 0
       [(''photo'', JObj [(''source'', JBuffer [1])]),
        (''reply_markup'', JObj [(''a'', JNum 1)])] =
     Inr (\<lparr>req_method = ''POST'', req_compress = True,
           req_headers = [(''content-type'', ''multipart/form-data; boundary=a''),
                          (''connection'', ''keep-alive'')]\<rparr>,
          FormBody [\<lparr>part_name = ''photo'', part_filename = Some ''photo.jpg'',
                      part_body = JBuffer [1]\<rparr>,
                    text_part ''reply_markup'' (JStr (''{'' @ quoteJSONString ''a'' @ '':1}''))]) \<and>
   (\<exists>s. JSON_stringify (JObj [(''a'', JNum 1)]) = JStr s \<and>
        text_part ''reply_markup'' (JStr s) \<in>
          set [\<lparr>part_name = ''photo'', part_filename = Some ''photo.jpg'',
                 part_body = JBuffer [1]\<rparr>,
               text_part ''reply_markup'' (JStr (''{'' @ quoteJSONString ''a'' @ '':1}''))])"
proof -
  have h1: "''reply_markup'' \<in> set FORM_DATA_JSON_FIELDS"
    by (simp add: FORM_DATA_JSON_FIELDS_def)
  have h2: "map_of [(''photo'', JObj [(''source'', JBuffer [1])]),
           (''reply_markup'', JObj [(''a'', JNum 1)])] ''reply_markup''
     = Some (JObj [(''a'', JNum 1)])" by simp
  have h3: "JObj [(''a'', JNum 1)] \<noteq> JUndefined" by simp
  have h4: "buildFormDataConfig demo_env 0
       [(''photo'', JObj [(''source'', JBuffer [1])]),
        (''reply_markup'', JObj [(''a'', JNum 1)])] =
     Inr (\<lparr>req_method = ''POST'', req_compress = True,
           req_headers = [(''content-type'', ''multipart/form-data; boundary=a''),
                          (''connection'', ''keep-alive'')]\<rparr>,
          FormBody [\<lparr>part_name = ''photo'', part_filename = Some ''photo.jpg'',
                      part_body = JBuffer [1]\<rparr>,
                    text_part ''reply_markup'' (JStr (''{'' @ quoteJSONString ''a'' @ '':1}''))])"
    by code_simp
  from C6_json_fields_multipart [OF h1 h2 h3 h4] obtain s
    where a: "if typeof (JObj [(''a'', JNum 1)]) = TString
              then JObj [(''a'', JNum 1)] = JStr s
              else JSON_stringify (JObj [(''a'', JNum 1)]) = JStr s"
      and b: "text_part ''reply_markup'' (JStr s) \<in>
          set [\<lparr>part_name = ''photo'', part_filename = Some ''photo.jpg'',
                 part_body = JBuffer [1]\<rparr>,
               text_part ''reply_markup'' (JStr (''{'' @ quoteJSONString ''a'' @ '':1}''))]"
    by (elim exE conjE)
  from a have "JSON_stringify (JObj [(''a'', JNum 1)]) = JStr s" by simp
  with b have "\<exists>s. JSON_stringify (JObj [(''a'', JNum 1)]) = JStr s \<and>
        text_part ''reply_markup'' (JStr s) \<in>
          set [\<lparr>part_name = ''photo'', part_filename = Some ''photo.jpg'',
                 part_body = JBuffer [1]\<rparr>,
               text_part ''reply_markup'' (JStr (''{'' @ quoteJSONString ''a'' @ '':1}''))]"
    by (intro exI [of _ s] conjI)
  then show ?thesis
    by (intro conjI h1 h2 h3 h4)
qed

text \<open>
  C6, as the specification words it, fails on the source in JSON mode: the pass over the
  allowlist is part of \<open>buildFormDataConfig\<close> only, so an object under \<^verbatim>\<open>reply_markup\<close> is
  serialised as a nested object. Had the pass run, the field would hold a quoted string,
  as the last body shows.
\<close>

theorem C6_json_mode_counterexample:
  "includesMedia [(''chat_id'', JNum 42), (''reply_markup'', JObj [(''a'', JNum 1)])] = Inr False \<and>
   encode demo_env 0 [(''chat_id'', JNum 42), (''reply_markup'', JObj [(''a'', JNum 1)])] =
     Inr (\<lparr>req_method = ''POST'', req_compress = True,
           req_headers = [(''content-type'', ''application/json''),
                          (''connection'', ''keep-alive'')]\<rparr>,
          TextBody (JStr (''{'' @ quoteJSONString ''chat_id'' @ '':42,'' @
                          quoteJSONString ''reply_markup'' @ '':'' @
                          ''{'' @ quoteJSONString ''a'' @ '':1}'' @ ''}''))) \<and>
   snd (buildJSONConfig (stringify_json_fields
          [(''chat_id'', JNum 42), (''reply_markup'', JObj [(''a'', JNum 1)])])) =
     TextBody (JStr (''{'' @ quoteJSONString ''chat_id'' @ '':42,'' @
                     quoteJSONString ''reply_markup'' @ '':'' @
                     quoteJSONString (''{'' @ quoteJSONString ''a'' @ '':1}'') @ ''}''))"
  by code_simp

section \<open>The media resolver on a string path\<close>

lemma prop_of_JStr_obj: "prop_of v k = JStr s \<Longrightarrow> \<exists>kvs. v = JObj kvs"
  by (cases v) auto

lemma attachFormMedia_string_source:
  assumes u: "prop_of media ''url'' = JUndefined"
    and s: "prop_of media ''source'' = JStr src" and ne: "src \<noteq> []"
  shows "attachFormMedia e frm media ident =
     (case realpath e src of
        Inl code \<Rightarrow> Inl (FsError code)
      | Inr source \<Rightarrow>
          (case stat_isFile e source of
             Inl code \<Rightarrow> Inl (FsError code)
           | Inr is_file \<Rightarrow>
               if is_file then
                 Inr (frm @ [\<lparr>part_name = ident,
                              part_filename =
                                Some (if nullish (prop_of media ''filename'') then basename src
                                      else toString (prop_of media ''filename'')),
                              part_body = JStream (ReadStream src)\<rparr>])
               else Inl (not_a_file src)))"
proof -
  from s obtain kvs where m: "media = JObj kvs" using prop_of_JStr_obj by blast
  from m s have hs: "map_of kvs ''source'' = Some (JStr src)"
    by (auto split: option.splits)
  show ?thesis
    using m u s ne hs
    by (auto simp: attachFormMedia_def addPart_def Let_def split: option.splits sum.splits)
qed

lemma attachAll_fails:
  assumes "\<And>st. \<exists>err. attachFormValue e st key (prop_of (JObj payload) key) = Inl err"
  shows "key \<in> set keys \<Longrightarrow> \<exists>err. attachAll e payload st keys = Inl err"
proof (induction keys arbitrary: st)
  case Nil
  then show ?case by simp
next
  case (Cons k keys)
  show ?case
  proof (cases "attachFormValue e st k (prop_of (JObj payload) k)")
    case (Inl err)
    then show ?thesis by simp
  next
    case (Inr st1)
    with assms [of st] have "k \<noteq> key" by auto
    with Cons.prems have "key \<in> set keys" by simp
    from Cons.IH [OF this, of st1] Inr show ?thesis by simp
  qed
qed

lemma attachFormValue_ref_fails:
  assumes m: "attachFormMedia e frm media ident = Inl err"
    and u: "prop_of media ''url'' = JUndefined"
    and s: "prop_of media ''source'' = JStr src" and ne: "src \<noteq> []"
    and t: "prop_of media ''type'' = JUndefined"
  shows "\<exists>err'. attachFormValue e st key media = Inl err'"
proof -
  from s obtain kvs where kvs: "media = JObj kvs" using prop_of_JStr_obj by blast
  have indep: "attachFormMedia e frm' media ident' = Inl err" for frm' ident'
  proof (cases "realpath e src")
    case (Inl code)
    with m show ?thesis by (simp add: attachFormMedia_string_source [OF u s ne])
  next
    case rp: (Inr source)
    show ?thesis
    proof (cases "stat_isFile e source")
      case (Inl code)
      with rp m show ?thesis by (simp add: attachFormMedia_string_source [OF u s ne])
    next
      case (Inr is_file)
      with rp m show ?thesis
        by (cases is_file) (simp_all add: attachFormMedia_string_source [OF u s ne])
    qed
  qed
  have ht: "\<not> (hasProp media ''type'' \<and> typeof (prop_of media ''type'') \<noteq> TUndefined)"
    using t by simp
  show ?thesis
    using kvs indep [of "form st"] ht
    by (auto simp: attachFormValue_def fresh_def split: sum.splits)
qed

text \<open>
  C7, amended: for every attachment reference with no \<^verbatim>\<open>url\<close> whose \<^verbatim>\<open>source\<close> is a non-empty
  string path, the media resolver resolves symbolic links and stats the resolved path. If
  either step is rejected, as on a path that does not exist, it fails with that file
  system error; if the target is not a regular file it fails with the ``not a file''
  error; in both cases no part is emitted. Otherwise it appends one part, a reader on the
  path, whose file name is the explicit \<^verbatim>\<open>filename\<close> of the reference and by default the base
  name of the path. When the resolver fails on the value of a field of the mapping (a
  reference without a \<^verbatim>\<open>type\<close>, under a name outside the allowlist of JSON fields), the
  whole encoding fails and produces no multipart body.
\<close>

theorem C7_string_source:
  assumes u: "prop_of media ''url'' = JUndefined"
    and s: "prop_of media ''source'' = JStr src" and ne: "src \<noteq> []"
  shows "attachFormMedia e frm media ident =
     (case realpath e src of
        Inl code \<Rightarrow> Inl (FsError code)
      | Inr source \<Rightarrow>
          (case stat_isFile e source of
             Inl code \<Rightarrow> Inl (FsError code)
           | Inr is_file \<Rightarrow>
               if is_file then
                 Inr (frm @ [\<lparr>part_name = ident,
                              part_filename =
                                Some (if nullish (prop_of media ''filename'') then basename src
                                      else toString (prop_of media ''filename'')),
                              part_body = JStream (ReadStream src)\<rparr>])
               else Inl (not_a_file src))) \<and>
     (attachFormMedia e frm media ident = Inl err \<and> prop_of media ''type'' = JUndefined \<and>
      map_of payload key = Some media \<and> key \<notin> set FORM_DATA_JSON_FIELDS \<longrightarrow>
      (\<exists>err'. buildFormDataConfig e n payload = Inl err'))"
proof (intro conjI impI)
  show "attachFormMedia e frm media ident =
     (case realpath e src of
        Inl code \<Rightarrow> Inl (FsError code)
      | Inr source \<Rightarrow>
          (case stat_isFile e source of
             Inl code \<Rightarrow> Inl (FsError code)
           | Inr is_file \<Rightarrow>
               if is_file then
                 Inr (frm @ [\<lparr>part_name = ident,
                              part_filename =
                                Some (if nullish (prop_of media ''filename'') then basename src
                                      else toString (prop_of media ''filename'')),
                              part_body = JStream (ReadStream src)\<rparr>])
               else Inl (not_a_file src)))"
    using u s ne by (rule attachFormMedia_string_source)
next
  assume h: "attachFormMedia e frm media ident = Inl err \<and> prop_of media ''type'' = JUndefined \<and>
      map_of payload key = Some media \<and> key \<notin> set FORM_DATA_JSON_FIELDS"
  let ?p = "stringify_json_fields payload"
  from h have "map_of ?p key = Some media"
    by (simp add: stringify_json_fields_def map_of_fold_other)
  then have v: "prop_of (JObj ?p) key = media" by simp
  from h have "key \<in> set (map fst payload)"
    by (metis map_of_eq_None_iff option.distinct(1) set_map)
  then have k: "key \<in> set (map fst ?p)" by (simp add: stringify_json_fields_keys)
  have "\<exists>err'. attachFormValue e st key (prop_of (JObj ?p) key) = Inl err'" for st
    unfolding v using h u s ne by (intro attachFormValue_ref_fails) auto
  from attachAll_fails [of e key ?p, OF this k]
  obtain err' where
    "attachAll e ?p \<lparr>form = [], draws = Suc n\<rparr> (map fst ?p) = Inl err'" by blast
  then show "\<exists>err'. buildFormDataConfig e n payload = Inl err'"
    by (simp add: buildFormDataConfig_def Let_def)
qed


text \<open>
  Instances in the sample environment: a symbolic link to a regular file gives a part
  named after the link; a directory gives the ``not a file'' error, for the resolver and
  for the whole encoding.
\<close>

theorem C7_string_source_witness:
  "prop_of (JObj [(''source'', JStr ''/tmp/link'')]) ''url'' = JUndefined \<and>
   prop_of (JObj [(''source'', JStr ''/tmp/link'')]) ''source'' = JStr ''/tmp/link'' \<and>
   ''/tmp/link'' \<noteq> [] \<and>
   attachFormMedia demo_env [] (JObj [(''source'', JStr ''/tmp/link'')]) ''document'' =
     Inr [\<lparr>part_name = ''document'', part_filename = Some ''link'',
           part_body = JStream (ReadStream ''/tmp/link'')\<rparr>] \<and>
   attachFormMedia demo_env [] (JObj [(''source'', JStr ''/tmp'')]) ''document'' =
     Inl (not_a_file ''/tmp'') \<and>
   (\<exists>err'. buildFormDataConfig demo_env 0 [(''document'', JObj [(''source'', JStr ''/tmp'')])] =
     Inl err')"
proof -
  have h1: "prop_of (JObj [(''source'', JStr ''/tmp/link'')]) ''url'' = JUndefined"
    and h2: "prop_of (JObj [(''source'', JStr ''/tmp/link'')]) ''source'' = JStr ''/tmp/link''"
    and h3: "''/tmp/link'' \<noteq> []"
    by simp_all
  have g1: "prop_of (JObj [(''source'', JStr ''/tmp'')]) ''url'' = JUndefined"
    and g2: "prop_of (JObj [(''source'', JStr ''/tmp'')]) ''source'' = JStr ''/tmp''"
    and g3: "''/tmp'' \<noteq> []"
    by simp_all
  have env: "realpath demo_env ''/tmp/link'' = Inr ''/tmp/x.jpg''"
    "stat_isFile demo_env ''/tmp/x.jpg'' = Inr True"
    "realpath demo_env ''/tmp'' = Inr ''/tmp''"
    "stat_isFile demo_env ''/tmp'' = Inr False"
    by (simp_all add: demo_env_def)
  have b: "basename ''/tmp/link'' = ''link''" by (simp add: basename_def)
  have a1: "attachFormMedia demo_env [] (JObj [(''source'', JStr ''/tmp/link'')]) ''document'' =
     Inr [\<lparr>part_name = ''document'', part_filename = Some ''link'',
           part_body = JStream (ReadStream ''/tmp/link'')\<rparr>]"
    using C7_string_source [OF h1 h2 h3, of demo_env "[]" "''document''", THEN conjunct1]
    by (simp add: env b)
  note t = C7_string_source [OF g1 g2 g3, of demo_env "[]" "''document''"
      "not_a_file ''/tmp''" "[(''document'', JObj [(''source'', JStr ''/tmp'')])]" "''document''" 0]
  have a2: "attachFormMedia demo_env [] (JObj [(''source'', JStr ''/tmp'')]) ''document'' =
     Inl (not_a_file ''/tmp'')"
    using t [THEN conjunct1] by (simp add: env)
  have k: "''document'' \<notin> set FORM_DATA_JSON_FIELDS"
    by (simp add: FORM_DATA_JSON_FIELDS_def)
  have a3: "\<exists>err'. buildFormDataConfig demo_env 0
              [(''document'', JObj [(''source'', JStr ''/tmp'')])] = Inl err'"
    by (rule t [THEN conjunct2, rule_format]) (simp add: a2 k)
  show ?thesis by (intro conjI h1 h2 h3 a1 a2 a3)
qed

text \<open>
  C7, as the specification words it, fails on the source: on a path that does not exist
  the resolver, and with it the whole encoding, fails with the \<^verbatim>\<open>ENOENT\<close> rejection of
  \<^verbatim>\<open>realpath\<close>, a file system failure in the specification's kinds, and the ``not a file''
  error is never constructed.
\<close>

theorem C7_missing_path_counterexample:
  "attachFormMedia demo_env [] (JObj [(''source'', JStr ''/tmp/nope.jpg'')]) ''document'' =
     Inl (FsError ''ENOENT'') \<and>
   buildFormDataConfig demo_env 0 [(''document'', JObj [(''source'', JStr ''/tmp/nope.jpg'')])] =
     Inl (FsError ''ENOENT'') \<and>
   kind_of (FsError ''ENOENT'') = FilesystemFailure \<and>
   kind_of (FsError ''ENOENT'') \<noteq> InvalidAttachmentSource"
  by (simp add: demo_env_def attachFormMedia_def buildFormDataConfig_def stringify_json_fields_def
        stringify_field_def FORM_DATA_JSON_FIELDS_def attachFormValue_def Let_def
        DEFAULT_EXTENSIONS_def)

section \<open>Thumbnail fields\<close>

text \<open>
  C4, amended: for every value under a field named \<^verbatim>\<open>thumb\<close> or \<^verbatim>\<open>thumbnail\<close> that is not
  nullish and not a string, boolean or number, the encoder draws a fresh attachment id
  and routes the value through the media resolver under that id; when the resolver
  succeeds it appends a textual part under the original field name holding
  \<^verbatim>\<open>attach://<id>\<close>. In particular a value \<^verbatim>\<open>{source: <path>}\<close> with no \<^verbatim>\<open>url\<close> and no
  \<^verbatim>\<open>filename\<close>, the path that of a regular file, produces two parts: the binary part named
  \<^verbatim>\<open><id>\<close> with the base name of the path as file name, and the part under the field name
  holding \<^verbatim>\<open>attach://<id>\<close>.
\<close>

theorem C4_thumbnail_object:
  assumes "ident = ''thumb'' \<or> ident = ''thumbnail''" and "typeof v = TObject" and "\<not> nullish v"
  shows "attachFormValue e st ident v =
           (case attachFormMedia e (form st) v (randomHex e (draws st)) of
              Inl err \<Rightarrow> Inl err
            | Inr frm \<Rightarrow>
                Inr \<lparr>form = frm @ [text_part ident (attach_ref (randomHex e (draws st)))],
                     draws = Suc (draws st)\<rparr>) \<and>
         (prop_of v ''url'' = JUndefined \<and> prop_of v ''source'' = JStr src \<and> src \<noteq> [] \<and>
          nullish (prop_of v ''filename'') \<and> realpath e src = Inr p \<and> stat_isFile e p = Inr True \<longrightarrow>
          attachFormValue e st ident v =
            Inr \<lparr>form = form st @
                    [\<lparr>part_name = randomHex e (draws st), part_filename = Some (basename src),
                      part_body = JStream (ReadStream src)\<rparr>,
                     text_part ident (attach_ref (randomHex e (draws st)))],
                 draws = Suc (draws st)\<rparr>)"
proof -
  have a: "attachFormValue e st ident v =
           (case attachFormMedia e (form st) v (randomHex e (draws st)) of
              Inl err \<Rightarrow> Inl err
            | Inr frm \<Rightarrow>
                Inr \<lparr>form = frm @ [text_part ident (attach_ref (randomHex e (draws st)))],
                     draws = Suc (draws st)\<rparr>)"
    using assms by (auto simp: attachFormValue_def fresh_def addPart_def split: sum.splits)
  show ?thesis
  proof (intro conjI impI)
    show "attachFormValue e st ident v =
           (case attachFormMedia e (form st) v (randomHex e (draws st)) of
              Inl err \<Rightarrow> Inl err
            | Inr frm \<Rightarrow>
                Inr \<lparr>form = frm @ [text_part ident (attach_ref (randomHex e (draws st)))],
                     draws = Suc (draws st)\<rparr>)" by (rule a)
  next
    assume h: "prop_of v ''url'' = JUndefined \<and> prop_of v ''source'' = JStr src \<and> src \<noteq> [] \<and>
          nullish (prop_of v ''filename'') \<and> realpath e src = Inr p \<and> stat_isFile e p = Inr True"
    then have "attachFormMedia e (form st) v (randomHex e (draws st)) =
       Inr (form st @ [\<lparr>part_name = randomHex e (draws st), part_filename = Some (basename src),
                      part_body = JStream (ReadStream src)\<rparr>])"
      by (simp add: attachFormMedia_string_source)
    with a show "attachFormValue e st ident v =
            Inr \<lparr>form = form st @
                    [\<lparr>part_name = randomHex e (draws st), part_filename = Some (basename src),
                      part_body = JStream (ReadStream src)\<rparr>,
                     text_part ident (attach_ref (randomHex e (draws st)))],
                 draws = Suc (draws st)\<rparr>" by simp
  qed
qed

theorem C4_thumbnail_object_witness:
  "(''thumb'' = ''thumb'' \<or> ''thumb'' = ''thumbnail'') \<and>
   typeof (JObj [(''source'', JStr ''/tmp/x.jpg'')]) = TObject \<and>
   \<not> nullish (JObj [(''source'', JStr ''/tmp/x.jpg'')]) \<and>
   attachFormValue demo_env \<lparr>form = [], draws = 0\<rparr> ''thumb''
       (JObj [(''source'', JStr ''/tmp/x.jpg'')]) =
     Inr \<lparr>form = [\<lparr>part_name = ''a'', part_filename = Some ''x.jpg'',
                    part_body = JStream (ReadStream ''/tmp/x.jpg'')\<rparr>,
                   text_part ''thumb'' (JStr ''attach://a'')],
          draws = 1\<rparr>"
proof -
  have h1: "''thumb'' = ''thumb'' \<or> ''thumb'' = ''thumbnail''" by simp
  have h2: "typeof (JObj [(''source'', JStr ''/tmp/x.jpg'')]) = TObject" by simp
  have h3: "\<not> nullish (JObj [(''source'', JStr ''/tmp/x.jpg'')])" by simp
  have env: "realpath demo_env ''/tmp/x.jpg'' = Inr ''/tmp/x.jpg''"
    "stat_isFile demo_env ''/tmp/x.jpg'' = Inr True" "randomHex demo_env 0 = ''a''"
    by (simp_all add: demo_env_def)
  have b: "basename ''/tmp/x.jpg'' = ''x.jpg''" by (simp add: basename_def)
  from C4_thumbnail_object [OF h1 h2 h3, of demo_env "\<lparr>form = [], draws = 0\<rparr>"
         "''/tmp/x.jpg''" "''/tmp/x.jpg''", THEN conjunct2]
  have "attachFormValue demo_env \<lparr>form = [], draws = 0\<rparr> ''thumb''
       (JObj [(''source'', JStr ''/tmp/x.jpg'')]) =
     Inr \<lparr>form = [\<lparr>part_name = ''a'', part_filename = Some ''x.jpg'',
                    part_body = JStream (ReadStream ''/tmp/x.jpg'')\<rparr>,
                   text_part ''thumb'' (JStr ''attach://a'')],
          draws = 1\<rparr>"
    by (simp add: env b attach_ref_def)
  with h1 h2 h3 show ?thesis by blast
qed

text \<open>
  C4, as the specification words it, fails on the source: the test for strings, booleans
  and numbers comes before the test for the thumbnail names, so a \<^verbatim>\<open>thumb\<close> field whose
  value is the string path of a real file produces one textual part holding the string,
  draws no id and adds no binary part.
\<close>

theorem C4_thumb_string_counterexample:
  "attachFormValue demo_env \<lparr>form = [], draws = 0\<rparr> ''thumb'' (JStr ''/tmp/x.jpg'') =
     Inr \<lparr>form = [text_part ''thumb'' (JStr ''/tmp/x.jpg'')], draws = 0\<rparr> \<and>
   realpath demo_env ''/tmp/x.jpg'' = Inr ''/tmp/x.jpg'' \<and>
   stat_isFile demo_env ''/tmp/x.jpg'' = Inr True"
  by (simp add: attachFormValue_def addPart_def demo_env_def)

section \<open>Array-valued fields\<close>


lemma is_attach_ref_attach_ref [simp]: "is_attach_ref (attach_ref ident)"
  by (simp add: is_attach_ref_def attach_ref_def)









section \<open>Generated identifiers\<close>





lemma names_ok_widen:
  "names_ok e K n n' ps \<Longrightarrow> m \<le> n \<Longrightarrow> n' \<le> m' \<Longrightarrow> names_ok e K m m' ps"
proof -
  assume a: "names_ok e K n n' ps" and le: "m \<le> n" "n' \<le> m'"
  have "randomHex e ` {n..<n'} \<subseteq> randomHex e ` {m..<m'}"
    by (rule image_mono) (use le in auto)
  with a le show ?thesis unfolding names_ok_def by (intro conjI) (linarith, blast, blast)
qed

















end
